theory Spec2Isabelle
  imports Main "HOL-Library.Word" "HOL-Library.Sublist"
begin

section \<open>The lake root: data\<close>

text \<open>
  The development embeds package \<open>lake\<close>'s \<open>Root\<close> (creation and opening of a lake, the
  magic file, pool creation and lookup) and \<open>pools.NewConfig\<close>. Everything the root calls
  that lives outside these two files (the storage engine, the record reader and serialiser,
  the config stores, the pool cache and the pool's own storage functions) is a field of the
  record \<open>env\<close> below: the theorems hold for every implementation of these collaborators.
\<close>

subsection \<open>Errors\<close>

text \<open>
  A Go \<open>error\<close> is one of the package-level sentinel values, an \<open>errors.New\<close> value, an
  \<open>fmt.Errorf\<close> value (kept as its format string and operands, the operand of a \<open>%w\<close>
  verb being the wrapped error), or any other value a collaborator produces. \<open>Panic\<close> is
  not an error value: it marks a run-time panic where the model has to be total.
\<close>

datatype error =
    ErrExist
  | ErrNotExist
  | fs_ErrNotExist
  | storage_ErrNotSupported
  | pools_ErrExists
  | errors_New string
  | fmt_Errorf string "fmtarg list"
  | Foreign nat
  | Panic string
and fmtarg =
    ArgS string
  | ArgQ string
  | ArgD "64 word"
  | ArgW error

text \<open>\<open>errors.Is\<close>: the error itself or an error it wraps is the target.\<close>

fun errors_Is :: "error \<Rightarrow> error \<Rightarrow> bool"
  and args_Is :: "fmtarg list \<Rightarrow> error \<Rightarrow> bool"
  and arg_Is :: "fmtarg \<Rightarrow> error \<Rightarrow> bool" where
  "errors_Is (fmt_Errorf f args) target = (fmt_Errorf f args = target \<or> args_Is args target)"
| "errors_Is ErrExist target = (ErrExist = target)"
| "errors_Is ErrNotExist target = (ErrNotExist = target)"
| "errors_Is fs_ErrNotExist target = (fs_ErrNotExist = target)"
| "errors_Is storage_ErrNotSupported target = (storage_ErrNotSupported = target)"
| "errors_Is pools_ErrExists target = (pools_ErrExists = target)"
| "errors_Is (errors_New s) target = (errors_New s = target)"
| "errors_Is (Foreign n) target = (Foreign n = target)"
| "errors_Is (Panic s) target = (Panic s = target)"
| "args_Is [] target = False"
| "args_Is (a # as) target = (arg_Is a target \<or> args_Is as target)"
| "arg_Is (ArgW e) target = errors_Is e target"
| "arg_Is (ArgS s) target = False"
| "arg_Is (ArgQ s) target = False"
| "arg_Is (ArgD d) target = False"

subsection \<open>Constants of package lake\<close>

definition lake_Version :: "64 word" where
  "lake_Version = 3"

definition PoolsTag :: string where
  "PoolsTag = ''pools''"

definition IndexRulesTag :: string where
  "IndexRulesTag = ''index_rules''"

definition LakeMagicFile :: string where
  "LakeMagicFile = ''lake.zng''"

definition LakeMagicString :: string where
  "LakeMagicString = ''ZED LAKE''"

subsection \<open>Paths\<close>

type_synonym URI = string

text \<open>
  Modelled from the spec: \<open>storage.URI.JoinPath\<close> is not among the sources. The on-disk
  layout of the spec (\<open>R/lake.<ext>\<close>, \<open>R/pools/\<close>, \<open>R/index_rules/\<close>) gives the child
  path as the parent, a slash and the element.
\<close>

definition JoinPath :: "URI \<Rightarrow> string \<Rightarrow> URI" where
  "JoinPath u elem = u @ ''/'' @ elem"

subsection \<open>Records of the source\<close>

type_synonym ksuid = "160 word"

record LakeMagic =
  Magic :: string
  Version :: "64 word"

datatype Which = Asc | Desc

record SortKey =
  Order :: Which
  Keys :: "string list list"

record Config =
  Ts :: "64 word"
  Name :: string
  ID :: ksuid
  SortKey :: SortKey
  SeekStride :: "64 word"
  Threshold :: "64 word"

text \<open>
  A \<open>Pool\<close> embeds its \<open>pools.Config\<close>; its other fields (engine, paths, branch and commit
  stores) are set by \<open>lake.OpenPool\<close>, which is not among the sources, and are kept as one
  opaque component.
\<close>

record 'p Pool =
  Config :: Config
  internals :: 'p

text \<open>
  The root. Its \<open>engine\<close> and \<open>logger\<close> fields are the collaborators of \<open>env\<close>; a store
  handle is the path the store was created or opened at, \<open>None\<close> being the nil pointer.
\<close>

record 'c Root =
  path :: URI
  poolCache :: 'c
  pools :: "URI option"
  indexRules :: "URI option"

subsection \<open>Collaborators\<close>

text \<open>
  \<open>'w\<close> is the state of the object store and of everything kept on it, \<open>'v\<close> a Zed value,
  \<open>'p\<close> the internals of an open pool, \<open>'c\<close> the state of the ARC cache. A \<open>*Pool\<close> is an
  address into a heap of pools (a list, the address being the index). A reader obtained from
  \<open>engine.Get\<close> and wrapped by \<open>zngio.NewReader\<close> is the list of the results its successive
  \<open>Read\<close> calls give; past the end \<open>Read\<close> gives \<open>(nil, nil)\<close>.
\<close>

type_synonym bytes = "8 word list"

record ('w, 'v, 'p, 'c) env =
  engine_Get :: "'w \<Rightarrow> URI \<Rightarrow> error + (error + 'v) list"
  engine_PutIfNotExists :: "'w \<Rightarrow> URI \<Rightarrow> bytes \<Rightarrow> error option \<times> 'w"
  storage_Put :: "'w \<Rightarrow> URI \<Rightarrow> bytes \<Rightarrow> error option \<times> 'w"
  Serializer_Write :: "LakeMagic \<Rightarrow> error option"
  Serializer_Close :: "LakeMagic \<Rightarrow> error option"
  Serializer_Bytes :: "LakeMagic \<Rightarrow> bytes"
  zson_UnmarshalZNG :: "'v option \<Rightarrow> error + LakeMagic"
  zson_String :: "'v \<Rightarrow> string"
  pools_CreateStore :: "'w \<Rightarrow> URI \<Rightarrow> error option \<times> 'w"
  pools_OpenStore :: "'w \<Rightarrow> URI \<Rightarrow> error option"
  index_CreateStore :: "'w \<Rightarrow> URI \<Rightarrow> error option \<times> 'w"
  index_OpenStore :: "'w \<Rightarrow> URI \<Rightarrow> error option"
  pools_LookupByName :: "'w \<Rightarrow> URI option \<Rightarrow> string \<Rightarrow> Config option"
  pools_LookupByID :: "'w \<Rightarrow> URI option \<Rightarrow> ksuid \<Rightarrow> error + Config"
  pools_Add :: "'w \<Rightarrow> URI option \<Rightarrow> Config \<Rightarrow> error option \<times> 'w"
  lake_CreatePool :: "'w \<Rightarrow> URI \<Rightarrow> Config \<Rightarrow> error option \<times> 'w"
  lake_OpenPool :: "'w \<Rightarrow> URI \<Rightarrow> Config \<Rightarrow> error + 'p Pool"
  lake_RemovePool :: "'w \<Rightarrow> URI \<Rightarrow> Config \<Rightarrow> error option \<times> 'w"
  lru_NewARC :: "'c"
  lru_Get :: "'c \<Rightarrow> ksuid \<Rightarrow> nat option \<times> 'c"
  lru_Add :: "'c \<Rightarrow> ksuid \<Rightarrow> nat \<Rightarrow> 'c"
  data_DefaultThreshold :: "64 word"
  data_DefaultSeekStride :: "64 word"

section \<open>The lake root: operations\<close>

text \<open>
  \<open>zngio.Reader.Read\<close> on the reader model: the next result and the rest of the reader.
  The operations below follow \<open>Root\<close>'s methods statement by statement; a method that
  assigns to the root or writes to the store returns the new root or store with its result.
\<close>

definition Read :: "(error + 'v) list \<Rightarrow> (error + 'v option) \<times> (error + 'v) list" where
  "Read zr = (case zr of
       [] \<Rightarrow> (Inr None, [])
     | Inl err # rest \<Rightarrow> (Inl err, rest)
     | Inr val # rest \<Rightarrow> (Inr (Some val), rest))"

definition newRoot :: "('w, 'v, 'p, 'c) env \<Rightarrow> URI \<Rightarrow> 'c Root" where
  "newRoot env p = \<lparr>path = p, poolCache = lru_NewARC env, pools = None, indexRules = None\<rparr>"

definition readLakeMagic :: "('w, 'v, 'p, 'c) env \<Rightarrow> 'c Root \<Rightarrow> 'w \<Rightarrow> error option" where
  "readLakeMagic env r w =
     (case engine_Get env w (JoinPath (path r) LakeMagicFile) of
        Inl err \<Rightarrow> Some err
      | Inr reader \<Rightarrow>
     (case Read reader of
        (Inl err, zr) \<Rightarrow> Some err
      | (Inr val, zr) \<Rightarrow>
     (case Read zr of
        (Inl err, zr') \<Rightarrow> Some err
      | (Inr (Some last'), zr') \<Rightarrow>
          Some (fmt_Errorf ''corrupt lake version file: more than one Zed value at %s''
                  [ArgS (zson_String env last')])
      | (Inr None, zr') \<Rightarrow>
     (case zson_UnmarshalZNG env val of
        Inl err \<Rightarrow> Some (fmt_Errorf ''corrupt lake version file: %w'' [ArgW err])
      | Inr magic \<Rightarrow>
          if Magic magic \<noteq> LakeMagicString then
            Some (fmt_Errorf ''corrupt lake version file: magic %q should be %q''
                    [ArgQ (Magic magic), ArgQ LakeMagicString])
          else if Version magic \<noteq> lake_Version then
            Some (fmt_Errorf ''unsupported lake version: found version %d while expecting %d''
                    [ArgD (Version magic), ArgD lake_Version])
          else None))))"

definition loadConfig :: "('w, 'v, 'p, 'c) env \<Rightarrow> 'c Root \<Rightarrow> 'w \<Rightarrow> error option \<times> 'c Root" where
  "loadConfig env r w =
     (case readLakeMagic env r w of
        Some err \<Rightarrow> (Some err, r)
      | None \<Rightarrow>
     (let poolPath = JoinPath (path r) PoolsTag;
          rulesPath = JoinPath (path r) IndexRulesTag
      in case pools_OpenStore env w poolPath of
        Some err \<Rightarrow> (Some err, r\<lparr>pools := None\<rparr>)
      | None \<Rightarrow>
     (let r1 = r\<lparr>pools := Some poolPath\<rparr>
      in case index_OpenStore env w rulesPath of
        Some err \<Rightarrow> (Some err, r1\<lparr>indexRules := None\<rparr>)
      | None \<Rightarrow> (None, r1\<lparr>indexRules := Some rulesPath\<rparr>))))"

definition Open :: "('w, 'v, 'p, 'c) env \<Rightarrow> URI \<Rightarrow> 'w \<Rightarrow> error + 'c Root" where
  "Open env p w =
     (let r = newRoot env p
      in case loadConfig env r w of
        (Some err, r') \<Rightarrow>
          Inl (if errors_Is err fs_ErrNotExist
               then fmt_Errorf ''%s: %w'' [ArgS p, ArgW ErrNotExist]
               else err)
      | (None, r') \<Rightarrow> Inr r')"

definition writeLakeMagic ::
  "('w, 'v, 'p, 'c) env \<Rightarrow> 'c Root \<Rightarrow> 'w \<Rightarrow> error option \<times> 'w" where
  "writeLakeMagic env r w =
     (case readLakeMagic env r w of
        None \<Rightarrow> (Some (errors_New ''lake already exists''), w)
      | Some err0 \<Rightarrow>
     (let magic = \<lparr>Magic = LakeMagicString, Version = lake_Version\<rparr>
      in case Serializer_Write env magic of
        Some err \<Rightarrow> (Some err, w)
      | None \<Rightarrow>
     (case Serializer_Close env magic of
        Some err \<Rightarrow> (Some err, w)
      | None \<Rightarrow>
     (let p = JoinPath (path r) LakeMagicFile
      in case engine_PutIfNotExists env w p (Serializer_Bytes env magic) of
        (err, w1) \<Rightarrow>
          if err = Some storage_ErrNotSupported
          then storage_Put env w1 p (Serializer_Bytes env magic)
          else (err, w1)))))"

definition createConfig ::
  "('w, 'v, 'p, 'c) env \<Rightarrow> 'c Root \<Rightarrow> 'w \<Rightarrow> error option \<times> 'c Root \<times> 'w" where
  "createConfig env r w =
     (let poolPath = JoinPath (path r) PoolsTag;
          rulesPath = JoinPath (path r) IndexRulesTag
      in case pools_CreateStore env w poolPath of
        (Some err, w1) \<Rightarrow> (Some err, r\<lparr>pools := None\<rparr>, w1)
      | (None, w1) \<Rightarrow>
     (let r1 = r\<lparr>pools := Some poolPath\<rparr>
      in case index_CreateStore env w1 rulesPath of
        (Some err, w2) \<Rightarrow> (Some err, r1\<lparr>indexRules := None\<rparr>, w2)
      | (None, w2) \<Rightarrow>
     (let r2 = r1\<lparr>indexRules := Some rulesPath\<rparr>
      in case writeLakeMagic env r2 w2 of
        (err, w3) \<Rightarrow> (err, r2, w3))))"

definition Create ::
  "('w, 'v, 'p, 'c) env \<Rightarrow> URI \<Rightarrow> 'w \<Rightarrow> (error + 'c Root) \<times> 'w" where
  "Create env p w =
     (let r = newRoot env p
      in case loadConfig env r w of
        (None, r') \<Rightarrow> (Inl (fmt_Errorf ''%s: %w'' [ArgS p, ArgW ErrExist]), w)
      | (Some err0, r') \<Rightarrow>
     (case createConfig env r' w of
        (Some err, r'', w') \<Rightarrow> (Inl err, w')
      | (None, r'', w') \<Rightarrow> (Inr r'', w')))"

definition CreateOrOpen ::
  "('w, 'v, 'p, 'c) env \<Rightarrow> URI \<Rightarrow> 'w \<Rightarrow> (error + 'c Root) \<times> 'w" where
  "CreateOrOpen env p w =
     (case Open env p w of
        Inl err \<Rightarrow> if errors_Is err ErrNotExist then Create env p w else (Inl err, w)
      | Inr r \<Rightarrow> (Inr r, w))"

subsection \<open>Pool configs\<close>

text \<open>
  Modelled from the spec: packages \<open>order\<close> and \<open>field\<close> are not among the sources. A sort
  key is a direction and a list of dotted field paths; the nil sort key is the one without
  keys (\<open>order.Nil\<close> is the zero value); \<open>field.DottedList\<close> splits its argument at commas
  into paths and each path at dots into names.
\<close>

definition order_Nil :: SortKey where
  "order_Nil = \<lparr>Order = Asc, Keys = []\<rparr>"

definition IsNil :: "SortKey \<Rightarrow> bool" where
  "IsNil s = (length (Keys s) = 0)"

definition order_NewSortKey :: "Which \<Rightarrow> string list list \<Rightarrow> SortKey" where
  "order_NewSortKey ord keys = \<lparr>Order = ord, Keys = keys\<rparr>"

fun strings_Split :: "char \<Rightarrow> string \<Rightarrow> string list" where
  "strings_Split sep [] = [[]]"
| "strings_Split sep (c # cs) =
     (if c = sep then [] # strings_Split sep cs
      else (case strings_Split sep cs of
              [] \<Rightarrow> [[c]]
            | x # xs \<Rightarrow> (c # x) # xs))"

definition field_DottedList :: "string \<Rightarrow> string list list" where
  "field_DottedList s = map (strings_Split (CHR ''.'')) (strings_Split (CHR '','') s)"

text \<open>
  \<open>pools.NewConfig\<close>. The results of \<open>nano.Now()\<close> and \<open>ksuid.New()\<close> are the parameters
  \<open>now\<close> and \<open>newID\<close>.
\<close>

definition NewConfig ::
  "('w, 'v, 'p, 'c) env \<Rightarrow> 64 word \<Rightarrow> ksuid \<Rightarrow> string \<Rightarrow> SortKey \<Rightarrow> 64 word \<Rightarrow> 64 word \<Rightarrow> Config" where
  "NewConfig env now newID name sortKey thresh seekStride =
     (let sortKey = (if IsNil sortKey then order_NewSortKey Desc (field_DottedList ''ts'')
                     else sortKey);
          thresh = (if thresh = 0 then data_DefaultThreshold env else thresh);
          seekStride = (if seekStride = 0 then data_DefaultSeekStride env else seekStride)
      in \<lparr>Ts = now, Name = name, ID = newID, SortKey = sortKey,
          SeekStride = seekStride, Threshold = thresh\<rparr>)"

subsection \<open>Pools of the root\<close>

text \<open>
  \<open>openPool\<close> returns a \<open>*Pool\<close>: on a cache hit the address of a fresh copy of the cached
  pool with its config replaced, on a miss the address of the pool \<open>lake.OpenPool\<close> made,
  which is also the address the cache keeps. A cached address is always allocated in Go; the
  model makes the other case a panic.
\<close>

definition openPool ::
  "('w, 'v, 'p, 'c) env \<Rightarrow> 'c Root \<Rightarrow> 'p Pool list \<Rightarrow> 'w \<Rightarrow> Config
     \<Rightarrow> (error + nat) \<times> 'c Root \<times> 'p Pool list" where
  "openPool env r h w config =
     (case lru_Get env (poolCache r) (ID config) of
        (Some a, c') \<Rightarrow>
          if a < length h
          then (Inr (length h), r\<lparr>poolCache := c'\<rparr>, h @ [(h ! a)\<lparr>Config := config\<rparr>])
          else (Inl (Panic ''invalid memory address''), r\<lparr>poolCache := c'\<rparr>, h)
      | (None, c') \<Rightarrow>
     (case lake_OpenPool env w (path r) config of
        Inl err \<Rightarrow> (Inl err, r\<lparr>poolCache := c'\<rparr>, h)
      | Inr p \<Rightarrow>
          (Inr (length h), r\<lparr>poolCache := lru_Add env c' (ID config) (length h)\<rparr>, h @ [p])))"

definition Root_OpenPool ::
  "('w, 'v, 'p, 'c) env \<Rightarrow> 'c Root \<Rightarrow> 'p Pool list \<Rightarrow> 'w \<Rightarrow> ksuid
     \<Rightarrow> (error + nat) \<times> 'c Root \<times> 'p Pool list" where
  "Root_OpenPool env r h w id' =
     (case pools_LookupByID env w (pools r) id' of
        Inl err \<Rightarrow> (Inl err, r, h)
      | Inr config \<Rightarrow> openPool env r h w config)"

definition Root_CreatePool ::
  "('w, 'v, 'p, 'c) env \<Rightarrow> 64 word \<Rightarrow> ksuid \<Rightarrow> 'c Root \<Rightarrow> 'p Pool list \<Rightarrow> 'w
     \<Rightarrow> string \<Rightarrow> SortKey \<Rightarrow> 64 word \<Rightarrow> 64 word
     \<Rightarrow> (error + nat) \<times> 'c Root \<times> 'p Pool list \<times> 'w" where
  "Root_CreatePool env now newID r h w name sortKey seekStride thresh =
     (if name = ''HEAD'' then
        (Inl (fmt_Errorf ''pool cannot be named %q'' [ArgQ name]), r, h, w)
      else if pools_LookupByName env w (pools r) name \<noteq> None then
        (Inl (fmt_Errorf ''%s: %w'' [ArgS name, ArgW pools_ErrExists]), r, h, w)
      else
     (let thresh = (if thresh = 0 then data_DefaultThreshold env else thresh)
      in if length (Keys sortKey) > 1 then
        (Inl (errors_New ''multiple pool keys not supported''), r, h, w)
      else
     (let config = NewConfig env now newID name sortKey thresh seekStride
      in case lake_CreatePool env w (path r) config of
        (Some err, w1) \<Rightarrow> (Inl err, r, h, w1)
      | (None, w1) \<Rightarrow>
     (case openPool env r h w1 config of
        (Inl err, r1, h1) \<Rightarrow>
          (Inl err, r1, h1, snd (lake_RemovePool env w1 (path r) config))
      | (Inr pool, r1, h1) \<Rightarrow>
     (case pools_Add env w1 (pools r) config of
        (Some err, w2) \<Rightarrow>
          (Inl err, r1, h1, snd (lake_RemovePool env w2 (path r) config))
      | (None, w2) \<Rightarrow> (Inr pool, r1, h1, w2))))))"

section \<open>An in-memory implementation of the collaborators\<close>

text \<open>
  A small object store with the config stores kept on it, used to run the operations on
  concrete lakes. Every call that may write is appended to \<open>calls\<close>; a call listed in
  \<open>faults\<close> fails with the error given there and has no other effect.
\<close>

datatype call =
    CGet URI
  | CPutIfNotExists URI
  | CPut URI
  | CPoolsCreateStore URI
  | CIndexCreateStore URI
  | CPoolsAdd string
  | CCreatePool ksuid
  | COpenPool ksuid
  | CRemovePool ksuid

record mem =
  files :: "(URI \<times> (error + LakeMagic) list) list"
  stores :: "URI list"
  entries :: "Config list"
  dirs :: "ksuid list"
  calls :: "call list"
  faults :: "(call \<times> error) list"

definition mem_ErrAlreadyExists :: error where
  "mem_ErrAlreadyExists = Foreign 17"

definition mem_Bytes :: "LakeMagic \<Rightarrow> bytes" where
  "mem_Bytes m = ucast (Version m) # map (\<lambda>c. of_nat (of_char c)) (Magic m)"

definition mem_decode :: "bytes \<Rightarrow> (error + LakeMagic) list" where
  "mem_decode bs = (case bs of
       [] \<Rightarrow> []
     | b # cs \<Rightarrow> [Inr \<lparr>Magic = map (\<lambda>c. char_of (unat c)) cs, Version = ucast b\<rparr>])"

definition mem_Get :: "mem \<Rightarrow> URI \<Rightarrow> error + (error + LakeMagic) list" where
  "mem_Get w p = (case map_of (faults w) (CGet p) of
       Some e \<Rightarrow> Inl e
     | None \<Rightarrow> (case map_of (files w) p of
         None \<Rightarrow> Inl fs_ErrNotExist
       | Some rd \<Rightarrow> Inr rd))"

definition mem_PutIfNotExists :: "mem \<Rightarrow> URI \<Rightarrow> bytes \<Rightarrow> error option \<times> mem" where
  "mem_PutIfNotExists w p bs =
     (let w1 = w\<lparr>calls := calls w @ [CPutIfNotExists p]\<rparr>
      in case map_of (faults w) (CPutIfNotExists p) of
        Some e \<Rightarrow> (Some e, w1)
      | None \<Rightarrow>
          if map_of (files w) p \<noteq> None then (Some mem_ErrAlreadyExists, w1)
          else (None, w1\<lparr>files := (p, mem_decode bs) # files w\<rparr>))"

definition mem_Put :: "mem \<Rightarrow> URI \<Rightarrow> bytes \<Rightarrow> error option \<times> mem" where
  "mem_Put w p bs =
     (let w1 = w\<lparr>calls := calls w @ [CPut p]\<rparr>
      in case map_of (faults w) (CPut p) of
        Some e \<Rightarrow> (Some e, w1)
      | None \<Rightarrow> (None, w1\<lparr>files := (p, mem_decode bs) # files w\<rparr>))"

definition mem_CreateStore :: "(URI \<Rightarrow> call) \<Rightarrow> mem \<Rightarrow> URI \<Rightarrow> error option \<times> mem" where
  "mem_CreateStore c w p =
     (let w1 = w\<lparr>calls := calls w @ [c p]\<rparr>
      in case map_of (faults w) (c p) of
        Some e \<Rightarrow> (Some e, w1)
      | None \<Rightarrow>
          if p \<in> set (stores w) then (Some mem_ErrAlreadyExists, w1)
          else (None, w1\<lparr>stores := p # stores w\<rparr>))"

definition mem_OpenStore :: "mem \<Rightarrow> URI \<Rightarrow> error option" where
  "mem_OpenStore w p = (if p \<in> set (stores w) then None else Some fs_ErrNotExist)"

definition mem_LookupByName :: "mem \<Rightarrow> URI option \<Rightarrow> string \<Rightarrow> Config option" where
  "mem_LookupByName w s n = find (\<lambda>c. Name c = n) (entries w)"

definition mem_LookupByID :: "mem \<Rightarrow> URI option \<Rightarrow> ksuid \<Rightarrow> error + Config" where
  "mem_LookupByID w s i = (case find (\<lambda>c. ID c = i) (entries w) of
       None \<Rightarrow> Inl (Foreign 3)
     | Some c \<Rightarrow> Inr c)"

definition mem_Add :: "mem \<Rightarrow> URI option \<Rightarrow> Config \<Rightarrow> error option \<times> mem" where
  "mem_Add w s c =
     (let w1 = w\<lparr>calls := calls w @ [CPoolsAdd (Name c)]\<rparr>
      in case map_of (faults w) (CPoolsAdd (Name c)) of
        Some e \<Rightarrow> (Some e, w1)
      | None \<Rightarrow>
          if find (\<lambda>d. Name d = Name c) (entries w) \<noteq> None then (Some pools_ErrExists, w1)
          else (None, w1\<lparr>entries := entries w @ [c]\<rparr>))"

definition mem_CreatePool :: "mem \<Rightarrow> URI \<Rightarrow> Config \<Rightarrow> error option \<times> mem" where
  "mem_CreatePool w p c =
     (let w1 = w\<lparr>calls := calls w @ [CCreatePool (ID c)]\<rparr>
      in case map_of (faults w) (CCreatePool (ID c)) of
        Some e \<Rightarrow> (Some e, w1)
      | None \<Rightarrow> (None, w1\<lparr>dirs := ID c # dirs w\<rparr>))"

definition mem_OpenPool :: "mem \<Rightarrow> URI \<Rightarrow> Config \<Rightarrow> error + nat Pool" where
  "mem_OpenPool w p c = (case map_of (faults w) (COpenPool (ID c)) of
       Some e \<Rightarrow> Inl e
     | None \<Rightarrow>
         if ID c \<in> set (dirs w) then Inr \<lparr>Config = c, internals = length (calls w)\<rparr>
         else Inl fs_ErrNotExist)"

definition mem_RemovePool :: "mem \<Rightarrow> URI \<Rightarrow> Config \<Rightarrow> error option \<times> mem" where
  "mem_RemovePool w p c =
     (let w1 = w\<lparr>calls := calls w @ [CRemovePool (ID c)]\<rparr>
      in case map_of (faults w) (CRemovePool (ID c)) of
        Some e \<Rightarrow> (Some e, w1)
      | None \<Rightarrow> (None, w1\<lparr>dirs := removeAll (ID c) (dirs w)\<rparr>))"

definition mem_env :: "(mem, LakeMagic, nat, (ksuid \<times> nat) list) env" where
  "mem_env = \<lparr>
     engine_Get = mem_Get,
     engine_PutIfNotExists = mem_PutIfNotExists,
     storage_Put = mem_Put,
     Serializer_Write = (\<lambda>m. None),
     Serializer_Close = (\<lambda>m. None),
     Serializer_Bytes = mem_Bytes,
     zson_UnmarshalZNG = (\<lambda>v. case v of None \<Rightarrow> Inl (Foreign 4) | Some m \<Rightarrow> Inr m),
     zson_String = Magic,
     pools_CreateStore = mem_CreateStore CPoolsCreateStore,
     pools_OpenStore = mem_OpenStore,
     index_CreateStore = mem_CreateStore CIndexCreateStore,
     index_OpenStore = mem_OpenStore,
     pools_LookupByName = mem_LookupByName,
     pools_LookupByID = mem_LookupByID,
     pools_Add = mem_Add,
     lake_CreatePool = mem_CreatePool,
     lake_OpenPool = mem_OpenPool,
     lake_RemovePool = mem_RemovePool,
     lru_NewARC = [],
     lru_Get = (\<lambda>c k. (map_of c k, c)),
     lru_Add = (\<lambda>c k a. (k, a) # c),
     data_DefaultThreshold = 524288000,
     data_DefaultSeekStride = 65536\<rparr>"

text \<open>The empty store, and a store holding only a magic file with the given records.\<close>

definition mem_empty :: mem where
  "mem_empty = \<lparr>files = [], stores = [], entries = [], dirs = [], calls = [], faults = []\<rparr>"

definition mem_magic :: "URI \<Rightarrow> LakeMagic list \<Rightarrow> mem" where
  "mem_magic p ms = mem_empty\<lparr>files := [(JoinPath p LakeMagicFile, map Inr ms)]\<rparr>"

text \<open>
  Example states: a lake created at \<open>lake\<close> on the empty store, its root, and the config of
  a pool named \<open>logs\<close>.
\<close>

definition mem_lake :: mem where
  "mem_lake = \<lparr>
     files = [(''lake/lake.zng'', [Inr \<lparr>Magic = ''ZED LAKE'', Version = 3\<rparr>])],
     stores = [''lake/index_rules'', ''lake/pools''], entries = [], dirs = [],
     calls = [CPoolsCreateStore ''lake/pools'', CIndexCreateStore ''lake/index_rules'',
              CPutIfNotExists ''lake/lake.zng''],
     faults = []\<rparr>"

definition mem_root :: "(ksuid \<times> nat) list Root" where
  "mem_root = \<lparr>path = ''lake'', poolCache = [], pools = Some ''lake/pools'',
                indexRules = Some ''lake/index_rules''\<rparr>"

definition cfg_logs :: Config where
  "cfg_logs = \<lparr>Ts = 1, Name = ''logs'', ID = 7,
                SortKey = \<lparr>Order = Desc, Keys = [[''ts'']]\<rparr>,
                SeekStride = 65536, Threshold = 524288000\<rparr>"

section \<open>The pools store\<close>

text \<open>\<open>pools.Config.Key\<close>: a pool config is keyed by its name.\<close>

definition Key :: "Config \<Rightarrow> string" where
  "Key p = Name p"

text \<open>
  Modelled from the spec: the config store of \<open>lake/pools\<close> and the journal under it are not
  among the sources. The store is journal-backed and keyed by the string the entry returns;
  its entries are one of Add, Update and Delete, and the current state is obtained by replay.
\<close>

datatype entry = EntryAdd Config | EntryUpdate Config | EntryDelete Config

text \<open>
  Modelled from the spec: replay of one entry on the live entries, by the entry's key.
\<close>

fun replay_entry :: "(string \<rightharpoonup> Config) \<Rightarrow> entry \<Rightarrow> (string \<rightharpoonup> Config)" where
  "replay_entry live (EntryAdd c) = live(Key c \<mapsto> c)"
| "replay_entry live (EntryUpdate c) = live(Key c \<mapsto> c)"
| "replay_entry live (EntryDelete c) = live(Key c := None)"

text \<open>
  Modelled from the spec: the current state of the store is the replay of its journal.
\<close>

definition replay :: "entry list \<Rightarrow> (string \<rightharpoonup> Config)" where
  "replay js = foldl replay_entry Map.empty js"

text \<open>
  Modelled from the spec: the on-disk layout keeps the pools journal (\<open>R/pools/\<close>) apart from
  the storage of each pool (\<open>R/<pool_id>/\<close>), and the root owns the pool configs while a
  pool owns its own storage. The store state is therefore the pools journal next to the rest
  of the object store.
\<close>

record 'x world =
  pools_journal :: "entry list"
  objects :: 'x

text \<open>
  Modelled from the spec: \<open>Add(e)\<close> fails with Exists if \<open>Key(e)\<close> already resolves to a
  live entry, and otherwise appends a single entry to the journal. The append is a
  conditional put on the object store that may fail; \<open>appendEntry\<close> gives its outcome and
  what it leaves on the object store, and the entry is in the journal only when it succeeds.
\<close>

definition store_Add ::
  "('x \<Rightarrow> Config \<Rightarrow> error option \<times> 'x) \<Rightarrow> 'x world \<Rightarrow> Config \<Rightarrow> error option \<times> 'x world" where
  "store_Add appendEntry w c =
     (if replay (pools_journal w) (Key c) \<noteq> None then (Some pools_ErrExists, w)
      else case appendEntry (objects w) c of
          (Some err, x) \<Rightarrow> (Some err, w\<lparr>objects := x\<rparr>)
        | (None, x) \<Rightarrow> (None, \<lparr>pools_journal = pools_journal w @ [EntryAdd c], objects = x\<rparr>))"

text \<open>
  Modelled from the spec: a collaborator that works on the rest of the object store leaves
  the pools journal alone.
\<close>

definition on_objects :: "'x world \<Rightarrow> 'a \<times> 'x \<Rightarrow> 'a \<times> 'x world" where
  "on_objects w res = (fst res, w\<lparr>objects := snd res\<rparr>)"

text \<open>
  Modelled from the spec: the collaborators over such a state. Lookup by name and \<open>Add\<close> are
  those of the journal-backed store; every other collaborator is that of \<open>base\<close> on the rest of
  the object store: \<open>lake.CreatePool\<close> and \<open>lake.RemovePool\<close> work on the pool's own
  storage (removing a pool deletes its config entry and removes its byte tree as two separate
  steps). Lookup by id, which pool creation does not use, stays with \<open>base\<close>.
\<close>

definition journal_env ::
  "('x \<Rightarrow> Config \<Rightarrow> error option \<times> 'x) \<Rightarrow> ('x, 'v, 'p, 'c) env \<Rightarrow> ('x world, 'v, 'p, 'c) env" where
  "journal_env appendEntry base = \<lparr>
     engine_Get = (\<lambda>w. engine_Get base (objects w)),
     engine_PutIfNotExists = (\<lambda>w p b. on_objects w (engine_PutIfNotExists base (objects w) p b)),
     storage_Put = (\<lambda>w p b. on_objects w (storage_Put base (objects w) p b)),
     Serializer_Write = Serializer_Write base,
     Serializer_Close = Serializer_Close base,
     Serializer_Bytes = Serializer_Bytes base,
     zson_UnmarshalZNG = zson_UnmarshalZNG base,
     zson_String = zson_String base,
     pools_CreateStore = (\<lambda>w p. on_objects w (pools_CreateStore base (objects w) p)),
     pools_OpenStore = (\<lambda>w. pools_OpenStore base (objects w)),
     index_CreateStore = (\<lambda>w p. on_objects w (index_CreateStore base (objects w) p)),
     index_OpenStore = (\<lambda>w. index_OpenStore base (objects w)),
     pools_LookupByName = (\<lambda>w s n. replay (pools_journal w) n),
     pools_LookupByID = (\<lambda>w. pools_LookupByID base (objects w)),
     pools_Add = (\<lambda>w s c. store_Add appendEntry w c),
     lake_CreatePool = (\<lambda>w p c. on_objects w (lake_CreatePool base (objects w) p c)),
     lake_OpenPool = (\<lambda>w. lake_OpenPool base (objects w)),
     lake_RemovePool = (\<lambda>w p c. on_objects w (lake_RemovePool base (objects w) p c)),
     lru_NewARC = lru_NewARC base,
     lru_Get = lru_Get base,
     lru_Add = lru_Add base,
     data_DefaultThreshold = data_DefaultThreshold base,
     data_DefaultSeekStride = data_DefaultSeekStride base\<rparr>"

text \<open>The journal append of the in-memory store: logged, and failing when listed in \<open>faults\<close>.\<close>

definition mem_append :: "mem \<Rightarrow> Config \<Rightarrow> error option \<times> mem" where
  "mem_append x c =
     (let x1 = x\<lparr>calls := calls x @ [CPoolsAdd (Name c)]\<rparr>
      in case map_of (faults x) (CPoolsAdd (Name c)) of
        Some e \<Rightarrow> (Some e, x1)
      | None \<Rightarrow> (None, x1))"

section \<open>Auxiliary facts\<close>

lemmas lake_consts = lake_Version_def PoolsTag_def IndexRulesTag_def LakeMagicFile_def
  LakeMagicString_def JoinPath_def

lemmas mem_defs = mem_env_def mem_Get_def mem_PutIfNotExists_def mem_Put_def
  mem_CreateStore_def mem_OpenStore_def mem_LookupByName_def mem_LookupByID_def mem_Add_def
  mem_CreatePool_def mem_OpenPool_def mem_RemovePool_def mem_empty_def mem_magic_def
  mem_ErrAlreadyExists_def mem_lake_def mem_root_def cfg_logs_def

lemma byte_char: "char_of (unat (of_nat (of_char c) :: 8 word)) = c"
  by (simp add: unat_of_nat)

lemma mem_codec:
  "mem_decode (mem_Bytes \<lparr>Magic = LakeMagicString, Version = lake_Version\<rparr>) =
     [Inr \<lparr>Magic = LakeMagicString, Version = lake_Version\<rparr>]"
  by (simp add: mem_Bytes_def mem_decode_def comp_def byte_char lake_Version_def)

lemma path_newRoot: "path (newRoot env p) = p"
  by (simp add: newRoot_def)

lemma readLakeMagic_path: "path r = path r' \<Longrightarrow> readLakeMagic env r w = readLakeMagic env r' w"
  by (simp add: readLakeMagic_def)

lemma writeLakeMagic_path: "path r = path r' \<Longrightarrow> writeLakeMagic env r w = writeLakeMagic env r' w"
  by (simp add: writeLakeMagic_def readLakeMagic_path [of r r'] Let_def split: option.splits)

lemma loadConfig_magic_error:
  "readLakeMagic env r w = Some e \<Longrightarrow> loadConfig env r w = (Some e, r)"
  by (simp add: loadConfig_def)

lemma loadConfig_root:
  "\<exists>ps ix. snd (loadConfig env r w) = r\<lparr>pools := ps, indexRules := ix\<rparr>"
proof (cases "readLakeMagic env r w")
  case (Some e)
  then have "snd (loadConfig env r w) = r\<lparr>pools := pools r, indexRules := indexRules r\<rparr>"
    by (simp add: loadConfig_def)
  then show ?thesis by blast
next
  case None
  show ?thesis
  proof (cases "pools_OpenStore env w (JoinPath (path r) PoolsTag)")
    case (Some e)
    with None have "snd (loadConfig env r w) = r\<lparr>pools := None, indexRules := indexRules r\<rparr>"
      by (simp add: loadConfig_def)
    then show ?thesis by blast
  next
    case n2: None
    show ?thesis
    proof (cases "index_OpenStore env w (JoinPath (path r) IndexRulesTag)")
      case (Some e)
      with None n2 have "snd (loadConfig env r w) =
          r\<lparr>pools := Some (JoinPath (path r) PoolsTag), indexRules := None\<rparr>"
        by (simp add: loadConfig_def)
      then show ?thesis by blast
    next
      case n3: None
      with None n2 have "snd (loadConfig env r w) =
          r\<lparr>pools := Some (JoinPath (path r) PoolsTag),
            indexRules := Some (JoinPath (path r) IndexRulesTag)\<rparr>"
        by (simp add: loadConfig_def)
      then show ?thesis by blast
    qed
  qed
qed

lemma createConfig_steps:
  assumes s1: "pools_CreateStore env w (JoinPath (path r) PoolsTag) = (e1, w1)"
    and s2: "index_CreateStore env w1 (JoinPath (path r) IndexRulesTag) = (e2, w2)"
    and s3: "writeLakeMagic env r w2 = (e3, w3)"
  shows "createConfig env r w =
     (case e1 of Some err \<Rightarrow> (Some err, r\<lparr>pools := None\<rparr>, w1) | None \<Rightarrow>
     (case e2 of Some err \<Rightarrow>
         (Some err, r\<lparr>pools := Some (JoinPath (path r) PoolsTag), indexRules := None\<rparr>, w2)
      | None \<Rightarrow>
         (e3, r\<lparr>pools := Some (JoinPath (path r) PoolsTag),
               indexRules := Some (JoinPath (path r) IndexRulesTag)\<rparr>, w3)))"
proof -
  have "writeLakeMagic env (r\<lparr>pools := Some (JoinPath (path r) PoolsTag),
               indexRules := Some (JoinPath (path r) IndexRulesTag)\<rparr>) w2 = (e3, w3)"
    using s3 writeLakeMagic_path [of "r\<lparr>pools := Some (JoinPath (path r) PoolsTag),
               indexRules := Some (JoinPath (path r) IndexRulesTag)\<rparr>" r env w2] by simp
  then show ?thesis
    using s1 s2 by (simp add: createConfig_def Let_def split: option.splits)
qed

lemma Open_magic_error:
  "readLakeMagic env (newRoot env p) w = Some e \<Longrightarrow> \<not> errors_Is e fs_ErrNotExist \<Longrightarrow>
   Open env p w = Inl e"
  by (simp add: Open_def loadConfig_magic_error)

lemma CreateOrOpen_error:
  "Open env p w = Inl e \<Longrightarrow> \<not> errors_Is e ErrNotExist \<Longrightarrow> CreateOrOpen env p w = (Inl e, w)"
  by (simp add: CreateOrOpen_def)

lemma NewConfig_thresh:
  "NewConfig env now newID name sortKey
     (if thresh = 0 then data_DefaultThreshold env else thresh) seekStride =
   NewConfig env now newID name sortKey thresh seekStride"
  by (simp add: NewConfig_def)

lemma DottedList_ts: "field_DottedList ''ts'' = [[''ts'']]"
  by (simp add: field_DottedList_def)

lemma NewConfig_logs: "NewConfig mem_env 1 7 ''logs'' order_Nil 0 0 = cfg_logs"
  by (simp add: NewConfig_def IsNil_def order_Nil_def order_NewSortKey_def DottedList_ts mem_defs)

lemma openPool_pool:
  assumes "openPool env r h w config = (Inr a, r1, h1)"
    and "\<forall>p. lake_OpenPool env w (path r) config = Inr p \<longrightarrow> Config p = config"
  shows "Config (h1 ! a) = config"
proof (cases "lru_Get env (poolCache r) (ID config)")
  case (Pair x c')
  show ?thesis
  proof (cases x)
    case None
    with Pair assms show ?thesis
      by (auto simp: openPool_def split: sum.splits)
  next
    case (Some b)
    with Pair assms show ?thesis
      by (auto simp: openPool_def split: if_splits)
  qed
qed

lemmas journal_defs = journal_env_def store_Add_def on_objects_def replay_def mem_append_def
  Key_def

lemma NewConfig_journal_logs:
  "NewConfig (journal_env mem_append mem_env) 1 7 ''logs'' order_Nil 0 0 = cfg_logs"
  by (simp add: NewConfig_def IsNil_def order_Nil_def order_NewSortKey_def DottedList_ts
      journal_env_def mem_defs)

lemma CreatePool_failure:
  assumes name: "name \<noteq> ''HEAD''"
    and fresh: "pools_LookupByName env w (pools r) name = None"
    and keys: "length (Keys sortKey) \<le> 1"
    and cfg: "config = NewConfig env now newID name sortKey thresh seekStride"
    and created: "lake_CreatePool env w (path r) config = (None, w1)"
    and opened: "openPool env r h w1 config = (res, r1, h1)"
    and added: "pools_Add env w1 (pools r) config = (aerr, w2)"
    and failed: "res = Inl e \<or> (\<exists>a. res = Inr a) \<and> aerr = Some e"
    and wc: "wc = (case res of Inl x \<Rightarrow> w1 | Inr a \<Rightarrow> w2)"
  shows "Root_CreatePool env now newID r h w name sortKey seekStride thresh =
           (Inl e, r1, h1, snd (lake_RemovePool env wc (path r) config))"
proof -
  have c: "NewConfig env now newID name sortKey
             (if thresh = 0 then data_DefaultThreshold env else thresh) seekStride = config"
    by (simp add: cfg NewConfig_thresh)
  from failed show ?thesis
  proof
    assume r: "res = Inl e"
    then have "wc = w1" by (simp add: wc)
    then show ?thesis
      using name fresh keys created opened r by (simp add: Root_CreatePool_def c Let_def)
  next
    assume "(\<exists>a. res = Inr a) \<and> aerr = Some e"
    then obtain a where r: "res = Inr a" and ae: "aerr = Some e" by blast
    then have "wc = w2" by (simp add: wc)
    then show ?thesis
      using name fresh keys created opened added r ae by (simp add: Root_CreatePool_def c Let_def)
  qed
qed

lemma journal_on_objects: "pools_journal (snd (on_objects w res)) = pools_journal w"
  by (simp add: on_objects_def)

lemma journal_failed_Add:
  "store_Add appendEntry w c = (Some e, w') \<Longrightarrow> pools_journal w' = pools_journal w"
  by (auto simp: store_Add_def split: if_splits prod.splits option.splits)

section \<open>Opening a lake: the magic file\<close>

text \<open>
  C1 (as amended). When the magic file of a lake holds exactly one record, with the expected
  magic string and a version other than \<open>lake_Version\<close>, \<open>Open\<close> returns no root but the
  error \<open>unsupported lake version: found version V while expecting N\<close>. The source has no
  error kinds: the spec's Invalid is this \<open>fmt.Errorf\<close> value.
\<close>

theorem Open_unsupported_version:
  assumes "engine_Get env w (JoinPath p LakeMagicFile) = Inr [Inr v]"
    and "zson_UnmarshalZNG env (Some v) = Inr magic"
    and "Magic magic = LakeMagicString"
    and "Version magic \<noteq> lake_Version"
  shows "Open env p w =
           Inl (fmt_Errorf ''unsupported lake version: found version %d while expecting %d''
                  [ArgD (Version magic), ArgD lake_Version])"
proof -
  have "readLakeMagic env (newRoot env p) w =
          Some (fmt_Errorf ''unsupported lake version: found version %d while expecting %d''
                  [ArgD (Version magic), ArgD lake_Version])"
    using assms by (simp add: readLakeMagic_def path_newRoot Read_def)
  then show ?thesis
    by (rule Open_magic_error) simp
qed

theorem Open_unsupported_version_witness:
  "engine_Get mem_env (mem_magic ''lake'' [\<lparr>Magic = ''ZED LAKE'', Version = 4\<rparr>])
       (JoinPath ''lake'' LakeMagicFile) = Inr [Inr \<lparr>Magic = ''ZED LAKE'', Version = 4\<rparr>] \<and>
   zson_UnmarshalZNG mem_env (Some \<lparr>Magic = ''ZED LAKE'', Version = 4\<rparr>) =
     Inr \<lparr>Magic = ''ZED LAKE'', Version = 4\<rparr> \<and>
   Version \<lparr>Magic = ''ZED LAKE'', Version = 4\<rparr> \<noteq> lake_Version \<and>
   Open mem_env ''lake'' (mem_magic ''lake'' [\<lparr>Magic = ''ZED LAKE'', Version = 4\<rparr>]) =
     Inl (fmt_Errorf ''unsupported lake version: found version %d while expecting %d''
            [ArgD 4, ArgD 3])"
proof -
  let ?m = "\<lparr>Magic = ''ZED LAKE'', Version = 4\<rparr>"
  have h1: "engine_Get mem_env (mem_magic ''lake'' [?m]) (JoinPath ''lake'' LakeMagicFile) =
              Inr [Inr ?m]"
    by (simp add: mem_defs)
  have h2: "zson_UnmarshalZNG mem_env (Some ?m) = Inr ?m"
    by (simp add: mem_defs)
  have h3: "Magic ?m = LakeMagicString"
    by (simp add: lake_consts)
  have h4: "Version ?m \<noteq> lake_Version"
    by (simp add: lake_consts)
  show ?thesis
    using h1 h2 h4 Open_unsupported_version [OF h1 h2 h3 h4] by (simp add: lake_Version_def)
qed

text \<open>
  The claim as stated fails: a record with another version and another magic string is
  reported as corrupt, because the magic string is compared first.
\<close>

theorem Open_version_counterexample:
  "engine_Get mem_env (mem_magic ''lake'' [\<lparr>Magic = ''NOT A LAKE'', Version = 4\<rparr>])
       (JoinPath ''lake'' LakeMagicFile) = Inr [Inr \<lparr>Magic = ''NOT A LAKE'', Version = 4\<rparr>] \<and>
   zson_UnmarshalZNG mem_env (Some \<lparr>Magic = ''NOT A LAKE'', Version = 4\<rparr>) =
     Inr \<lparr>Magic = ''NOT A LAKE'', Version = 4\<rparr> \<and>
   Version \<lparr>Magic = ''NOT A LAKE'', Version = 4\<rparr> \<noteq> lake_Version \<and>
   Open mem_env ''lake'' (mem_magic ''lake'' [\<lparr>Magic = ''NOT A LAKE'', Version = 4\<rparr>]) =
     Inl (fmt_Errorf ''corrupt lake version file: magic %q should be %q''
            [ArgQ ''NOT A LAKE'', ArgQ ''ZED LAKE''])"
  by (simp add: Open_def loadConfig_def readLakeMagic_def newRoot_def Read_def mem_defs
      lake_consts)

text \<open>
  C2. When the magic file holds more than one record, or holds one record whose magic string
  is not the expected one, reading the magic gives a \<open>corrupt lake version file\<close> error,
  \<open>Open\<close> returns that very error, and \<open>CreateOrOpen\<close> returns it too without creating
  anything: nothing retries or replaces it.
\<close>

theorem Open_corrupt_magic:
  assumes get: "engine_Get env w (JoinPath p LakeMagicFile) = Inr rd"
    and bad: "(\<exists>v1 v2 rest. rd = Inr v1 # Inr v2 # rest) \<or>
              (\<exists>v m. rd = [Inr v] \<and> zson_UnmarshalZNG env (Some v) = Inr m \<and>
                     Magic m \<noteq> LakeMagicString)"
  shows "\<exists>f args. prefix ''corrupt lake version file'' f \<and>
           readLakeMagic env (newRoot env p) w = Some (fmt_Errorf f args) \<and>
           Open env p w = Inl (fmt_Errorf f args) \<and>
           CreateOrOpen env p w = (Inl (fmt_Errorf f args), w)"
proof -
  from bad show ?thesis
  proof
    assume "\<exists>v1 v2 rest. rd = Inr v1 # Inr v2 # rest"
    then obtain v1 v2 rest where rd: "rd = Inr v1 # Inr v2 # rest" by blast
    let ?e = "fmt_Errorf ''corrupt lake version file: more than one Zed value at %s''
                [ArgS (zson_String env v2)]"
    have m: "readLakeMagic env (newRoot env p) w = Some ?e"
      using get rd by (simp add: readLakeMagic_def path_newRoot Read_def)
    have o: "Open env p w = Inl ?e"
      using m by (rule Open_magic_error) simp
    have c: "CreateOrOpen env p w = (Inl ?e, w)"
      using o by (rule CreateOrOpen_error) simp
    show ?thesis
      using m o c
      by (intro exI [of _ "''corrupt lake version file: more than one Zed value at %s''"]
          exI [of _ "[ArgS (zson_String env v2)]"]) simp
  next
    assume "\<exists>v m. rd = [Inr v] \<and> zson_UnmarshalZNG env (Some v) = Inr m \<and>
                     Magic m \<noteq> LakeMagicString"
    then obtain v m where rd: "rd = [Inr v]" and um: "zson_UnmarshalZNG env (Some v) = Inr m"
      and mm: "Magic m \<noteq> LakeMagicString" by blast
    let ?e = "fmt_Errorf ''corrupt lake version file: magic %q should be %q''
                [ArgQ (Magic m), ArgQ LakeMagicString]"
    have m: "readLakeMagic env (newRoot env p) w = Some ?e"
      using get rd um mm by (simp add: readLakeMagic_def path_newRoot Read_def)
    have o: "Open env p w = Inl ?e"
      using m by (rule Open_magic_error) simp
    have c: "CreateOrOpen env p w = (Inl ?e, w)"
      using o by (rule CreateOrOpen_error) simp
    show ?thesis
      using m o c
      by (intro exI [of _ "''corrupt lake version file: magic %q should be %q''"]
          exI [of _ "[ArgQ (Magic m), ArgQ LakeMagicString]"]) simp
  qed
qed

theorem Open_corrupt_magic_witness:
  "engine_Get mem_env
       (mem_magic ''lake'' [\<lparr>Magic = ''ZED LAKE'', Version = 3\<rparr>, \<lparr>Magic = ''ZED LAKE'', Version = 3\<rparr>])
       (JoinPath ''lake'' LakeMagicFile) =
     Inr [Inr \<lparr>Magic = ''ZED LAKE'', Version = 3\<rparr>, Inr \<lparr>Magic = ''ZED LAKE'', Version = 3\<rparr>] \<and>
   (\<exists>f args. prefix ''corrupt lake version file'' f \<and>
      Open mem_env ''lake''
        (mem_magic ''lake'' [\<lparr>Magic = ''ZED LAKE'', Version = 3\<rparr>, \<lparr>Magic = ''ZED LAKE'', Version = 3\<rparr>]) =
      Inl (fmt_Errorf f args))"
proof -
  let ?m = "\<lparr>Magic = ''ZED LAKE'', Version = 3\<rparr>"
  have h1: "engine_Get mem_env (mem_magic ''lake'' [?m, ?m]) (JoinPath ''lake'' LakeMagicFile) =
              Inr [Inr ?m, Inr ?m]"
    by (simp add: mem_defs)
  have h2: "(\<exists>v1 v2 rest. [Inr ?m, Inr ?m] = Inr v1 # Inr v2 # rest) \<or>
            (\<exists>v m. [Inr ?m, Inr ?m] = [Inr v] \<and> zson_UnmarshalZNG mem_env (Some v) = Inr m \<and>
                   Magic m \<noteq> LakeMagicString)"
    by simp
  show ?thesis
    using h1 Open_corrupt_magic [OF h1 h2] by blast
qed

section \<open>Creating a lake\<close>

text \<open>
  C3 (as amended). \<open>Create\<close> fails with \<open>ErrExist\<close>, writing nothing, when a lake already
  loads at the path. Otherwise it runs three steps in this order, each on the store the
  previous one left, and stops with the error of the first step that fails: it creates the
  pools config store, then the index-rules config store, and only then writes the magic
  record (\<open>writeLakeMagic\<close>).
\<close>

theorem Create_steps_in_order:
  assumes r2: "r2 = \<lparr>path = p, poolCache = lru_NewARC env,
                     pools = Some (JoinPath p PoolsTag),
                     indexRules = Some (JoinPath p IndexRulesTag)\<rparr>"
    and s1: "pools_CreateStore env w (JoinPath p PoolsTag) = (e1, w1)"
    and s2: "index_CreateStore env w1 (JoinPath p IndexRulesTag) = (e2, w2)"
    and s3: "writeLakeMagic env r2 w2 = (e3, w3)"
  shows "Create env p w =
     (if fst (loadConfig env (newRoot env p) w) = None
      then (Inl (fmt_Errorf ''%s: %w'' [ArgS p, ArgW ErrExist]), w)
      else case e1 of Some err \<Rightarrow> (Inl err, w1) | None \<Rightarrow>
          (case e2 of Some err \<Rightarrow> (Inl err, w2) | None \<Rightarrow>
          (case e3 of Some err \<Rightarrow> (Inl err, w3) | None \<Rightarrow> (Inr r2, w3))))"
proof (cases "fst (loadConfig env (newRoot env p) w)")
  case None
  then obtain r' where "loadConfig env (newRoot env p) w = (None, r')"
    by (cases "loadConfig env (newRoot env p) w") simp
  then show ?thesis
    by (simp add: Create_def)
next
  case (Some e0)
  obtain ps ix where r': "snd (loadConfig env (newRoot env p) w) =
      (newRoot env p)\<lparr>pools := ps, indexRules := ix\<rparr>"
    using loadConfig_root [of env "newRoot env p" w] by auto
  let ?r' = "(newRoot env p)\<lparr>pools := ps, indexRules := ix\<rparr>"
  have lc: "loadConfig env (newRoot env p) w = (Some e0, ?r')"
    using Some r' by (simp add: prod_eq_iff)
  have pr: "path ?r' = p" by (simp add: newRoot_def)
  have w3: "writeLakeMagic env ?r' w2 = (e3, w3)"
    using s3 writeLakeMagic_path [of ?r' r2 env w2] by (simp add: r2 newRoot_def)
  have cc: "createConfig env ?r' w =
     (case e1 of Some err \<Rightarrow> (Some err, ?r'\<lparr>pools := None\<rparr>, w1) | None \<Rightarrow>
     (case e2 of Some err \<Rightarrow>
         (Some err, ?r'\<lparr>pools := Some (JoinPath (path ?r') PoolsTag), indexRules := None\<rparr>, w2)
      | None \<Rightarrow>
         (e3, ?r'\<lparr>pools := Some (JoinPath (path ?r') PoolsTag),
               indexRules := Some (JoinPath (path ?r') IndexRulesTag)\<rparr>, w3)))"
    by (rule createConfig_steps) (simp_all add: pr s1 s2 w3)
  have eq: "?r'\<lparr>pools := Some (JoinPath p PoolsTag),
               indexRules := Some (JoinPath p IndexRulesTag)\<rparr> = r2"
    by (simp add: r2 newRoot_def)
  have eq': "(newRoot env p)\<lparr>pools := Some (JoinPath p PoolsTag),
               indexRules := Some (JoinPath p IndexRulesTag)\<rparr> = r2"
    by (simp add: r2 newRoot_def)
  show ?thesis
    using Some by (simp add: Create_def lc cc pr eq eq' split: option.splits)
qed


theorem Create_steps_in_order_witness:
  "pools_CreateStore mem_env mem_empty (JoinPath ''lake'' PoolsTag) =
     (None, mem_empty\<lparr>stores := [''lake/pools''], calls := [CPoolsCreateStore ''lake/pools'']\<rparr>) \<and>
   index_CreateStore mem_env
       (mem_empty\<lparr>stores := [''lake/pools''], calls := [CPoolsCreateStore ''lake/pools'']\<rparr>)
       (JoinPath ''lake'' IndexRulesTag) =
     (None, mem_lake\<lparr>files := [], calls := [CPoolsCreateStore ''lake/pools'',
                                              CIndexCreateStore ''lake/index_rules'']\<rparr>) \<and>
   writeLakeMagic mem_env mem_root
       (mem_lake\<lparr>files := [], calls := [CPoolsCreateStore ''lake/pools'',
                                        CIndexCreateStore ''lake/index_rules'']\<rparr>) =
     (None, mem_lake) \<and>
   Create mem_env ''lake'' mem_empty = (Inr mem_root, mem_lake) \<and>
   Create mem_env ''lake'' mem_lake =
     (Inl (fmt_Errorf ''%s: %w'' [ArgS ''lake'', ArgW ErrExist]), mem_lake)"
proof -
  let ?w1 = "mem_empty\<lparr>stores := [''lake/pools''], calls := [CPoolsCreateStore ''lake/pools'']\<rparr>"
  let ?w2 = "mem_lake\<lparr>files := [], calls := [CPoolsCreateStore ''lake/pools'',
                                              CIndexCreateStore ''lake/index_rules'']\<rparr>"
  have r2: "mem_root = \<lparr>path = ''lake'', poolCache = lru_NewARC mem_env,
                         pools = Some (JoinPath ''lake'' PoolsTag),
                         indexRules = Some (JoinPath ''lake'' IndexRulesTag)\<rparr>"
    by (simp add: mem_defs lake_consts)
  have s1: "pools_CreateStore mem_env mem_empty (JoinPath ''lake'' PoolsTag) = (None, ?w1)"
    by (simp add: mem_defs lake_consts)
  have s2: "index_CreateStore mem_env ?w1 (JoinPath ''lake'' IndexRulesTag) = (None, ?w2)"
    by (simp add: mem_defs lake_consts)
  have g: "readLakeMagic mem_env mem_root ?w2 = Some fs_ErrNotExist"
    by (simp add: readLakeMagic_def mem_defs lake_consts)
  have s3: "writeLakeMagic mem_env mem_root ?w2 = (None, mem_lake)"
    using mem_codec by (simp add: writeLakeMagic_def g) (simp add: mem_defs lake_consts Let_def)
  have l1: "fst (loadConfig mem_env (newRoot mem_env ''lake'') mem_empty) \<noteq> None"
    by (simp add: loadConfig_def readLakeMagic_def newRoot_def mem_defs lake_consts)
  have l2: "fst (loadConfig mem_env (newRoot mem_env ''lake'') mem_lake) = None"
    by (simp add: loadConfig_def readLakeMagic_def newRoot_def Read_def mem_defs lake_consts)
  have c1: "Create mem_env ''lake'' mem_empty = (Inr mem_root, mem_lake)"
    using Create_steps_in_order [OF r2 s1 s2 s3] l1 by simp
  have c2: "Create mem_env ''lake'' mem_lake =
              (Inl (fmt_Errorf ''%s: %w'' [ArgS ''lake'', ArgW ErrExist]), mem_lake)"
    using Create_steps_in_order [OF r2 prod.collapse [symmetric] prod.collapse [symmetric]
        prod.collapse [symmetric], of mem_lake] l2 by simp
  show ?thesis
    using s1 s2 s3 c1 c2 by simp
qed

text \<open>
  The claim as stated fails: when the creation of the index-rules store fails, the pools
  store has already been created and no magic file has been written.
\<close>

theorem Create_order_counterexample:
  "Create mem_env ''lake''
     (mem_empty\<lparr>faults := [(CIndexCreateStore ''lake/index_rules'', Foreign 5)]\<rparr>) =
   (Inl (Foreign 5),
    \<lparr>files = [], stores = [''lake/pools''], entries = [], dirs = [],
       calls = [CPoolsCreateStore ''lake/pools'', CIndexCreateStore ''lake/index_rules''],
       faults = [(CIndexCreateStore ''lake/index_rules'', Foreign 5)]\<rparr>)"
  by (simp add: Create_def createConfig_def loadConfig_def readLakeMagic_def newRoot_def
      mem_defs lake_consts Let_def)

text \<open>
  C7. \<open>writeLakeMagic\<close> writes the magic file with \<open>PutIfNotExists\<close>. When no valid magic
  is readable yet and the record serialises, its result is that of \<open>PutIfNotExists\<close>,
  whatever error that is, except when the error is \<open>storage.ErrNotSupported\<close> itself: only
  then \<open>storage.Put\<close> runs, on the store \<open>PutIfNotExists\<close> left, and its result is
  returned.
\<close>

theorem writeLakeMagic_PutIfNotExists:
  assumes magic: "magic = \<lparr>Magic = LakeMagicString, Version = lake_Version\<rparr>"
    and nolake: "readLakeMagic env r w = Some e0"
    and sw: "Serializer_Write env magic = None"
    and sc: "Serializer_Close env magic = None"
    and pine: "engine_PutIfNotExists env w (JoinPath (path r) LakeMagicFile)
                 (Serializer_Bytes env magic) = (err, w1)"
  shows "writeLakeMagic env r w =
           (if err = Some storage_ErrNotSupported
            then storage_Put env w1 (JoinPath (path r) LakeMagicFile) (Serializer_Bytes env magic)
            else (err, w1))"
  using nolake sw sc pine unfolding magic by (simp add: writeLakeMagic_def)

theorem writeLakeMagic_PutIfNotExists_witness:
  "writeLakeMagic mem_env mem_root
     (mem_empty\<lparr>faults := [(CPutIfNotExists ''lake/lake.zng'', storage_ErrNotSupported)]\<rparr>) =
   (None,
    \<lparr>files = [(''lake/lake.zng'', [Inr \<lparr>Magic = ''ZED LAKE'', Version = 3\<rparr>])],
       stores = [], entries = [], dirs = [],
       calls = [CPutIfNotExists ''lake/lake.zng'', CPut ''lake/lake.zng''],
       faults = [(CPutIfNotExists ''lake/lake.zng'', storage_ErrNotSupported)]\<rparr>) \<and>
   writeLakeMagic mem_env mem_root (mem_magic ''lake'' [\<lparr>Magic = ''ZED LAKE'', Version = 4\<rparr>]) =
   (Some mem_ErrAlreadyExists,
    \<lparr>files = [(''lake/lake.zng'', [Inr \<lparr>Magic = ''ZED LAKE'', Version = 4\<rparr>])],
       stores = [], entries = [], dirs = [],
       calls = [CPutIfNotExists ''lake/lake.zng''], faults = []\<rparr>)"
proof -
  let ?m = "\<lparr>Magic = LakeMagicString, Version = lake_Version\<rparr>"
  let ?wa = "mem_empty\<lparr>faults := [(CPutIfNotExists ''lake/lake.zng'', storage_ErrNotSupported)]\<rparr>"
  let ?wa1 = "?wa\<lparr>calls := [CPutIfNotExists ''lake/lake.zng'']\<rparr>"
  let ?wb = "mem_magic ''lake'' [\<lparr>Magic = ''ZED LAKE'', Version = 4\<rparr>]"
  let ?wb1 = "?wb\<lparr>calls := [CPutIfNotExists ''lake/lake.zng'']\<rparr>"
  have sw: "Serializer_Write mem_env ?m = None" and sc: "Serializer_Close mem_env ?m = None"
    by (simp_all add: mem_defs)
  have a1: "readLakeMagic mem_env mem_root ?wa = Some fs_ErrNotExist"
    by (simp add: readLakeMagic_def mem_defs lake_consts)
  have a2: "engine_PutIfNotExists mem_env ?wa (JoinPath (path mem_root) LakeMagicFile)
              (Serializer_Bytes mem_env ?m) = (Some storage_ErrNotSupported, ?wa1)"
    by (simp add: mem_defs lake_consts Let_def)
  have b1: "readLakeMagic mem_env mem_root ?wb =
              Some (fmt_Errorf ''unsupported lake version: found version %d while expecting %d''
                      [ArgD 4, ArgD 3])"
    by (simp add: readLakeMagic_def Read_def mem_defs lake_consts)
  have b2: "engine_PutIfNotExists mem_env ?wb (JoinPath (path mem_root) LakeMagicFile)
              (Serializer_Bytes mem_env ?m) = (Some mem_ErrAlreadyExists, ?wb1)"
    by (simp add: mem_defs lake_consts Let_def)
  have a: "writeLakeMagic mem_env mem_root ?wa =
             storage_Put mem_env ?wa1 (JoinPath (path mem_root) LakeMagicFile)
               (Serializer_Bytes mem_env ?m)"
    using writeLakeMagic_PutIfNotExists [OF refl a1 sw sc a2] by simp
  have b: "writeLakeMagic mem_env mem_root ?wb = (Some mem_ErrAlreadyExists, ?wb1)"
    using writeLakeMagic_PutIfNotExists [OF refl b1 sw sc b2] by (simp add: mem_defs)
  have p: "storage_Put mem_env ?wa1 (JoinPath (path mem_root) LakeMagicFile)
               (Serializer_Bytes mem_env ?m) =
           (None,
            \<lparr>files = [(''lake/lake.zng'', [Inr \<lparr>Magic = ''ZED LAKE'', Version = 3\<rparr>])],
               stores = [], entries = [], dirs = [],
               calls = [CPutIfNotExists ''lake/lake.zng'', CPut ''lake/lake.zng''],
               faults = [(CPutIfNotExists ''lake/lake.zng'', storage_ErrNotSupported)]\<rparr>)"
    using mem_codec by (simp add: mem_defs Let_def) (simp add: lake_consts)
  show ?thesis
    unfolding a b p by (simp add: mem_defs lake_consts)
qed

section \<open>Creating a pool\<close>

text \<open>
  C4. \<open>CreatePool\<close> with the name \<open>HEAD\<close> fails with the error
  \<open>pool cannot be named "HEAD"\<close> (the spec's Invalid) and changes nothing: root, heap and
  store are as before, so no pool is created.
\<close>

theorem CreatePool_HEAD:
  "Root_CreatePool env now newID r h w ''HEAD'' sortKey seekStride thresh =
     (Inl (fmt_Errorf ''pool cannot be named %q'' [ArgQ ''HEAD'']), r, h, w)"
  by (simp add: Root_CreatePool_def)

theorem CreatePool_HEAD_witness:
  "Root_CreatePool mem_env 1 7 mem_root [] mem_lake ''HEAD'' order_Nil 0 0 =
     (Inl (fmt_Errorf ''pool cannot be named %q'' [ArgQ ''HEAD'']), mem_root, [], mem_lake)"
  by (rule CreatePool_HEAD)

text \<open>
  C5 (as amended). When a pool named \<open>n\<close> exists and \<open>n\<close> is not the reserved name
  \<open>HEAD\<close>, \<open>CreatePool\<close> with the name \<open>n\<close> fails with an error that wraps
  \<open>pools.ErrExists\<close> and changes nothing.
\<close>

theorem CreatePool_existing_name:
  assumes "name \<noteq> ''HEAD''"
    and "pools_LookupByName env w (pools r) name = Some c"
  shows "Root_CreatePool env now newID r h w name sortKey seekStride thresh =
           (Inl (fmt_Errorf ''%s: %w'' [ArgS name, ArgW pools_ErrExists]), r, h, w) \<and>
         errors_Is (fmt_Errorf ''%s: %w'' [ArgS name, ArgW pools_ErrExists]) pools_ErrExists"
  using assms by (simp add: Root_CreatePool_def)

theorem CreatePool_existing_name_witness:
  "''logs'' \<noteq> ''HEAD'' \<and>
   pools_LookupByName mem_env (mem_lake\<lparr>entries := [cfg_logs]\<rparr>) (pools mem_root) ''logs'' =
     Some cfg_logs \<and>
   Root_CreatePool mem_env 2 8 mem_root [] (mem_lake\<lparr>entries := [cfg_logs]\<rparr>) ''logs''
       order_Nil 0 0 =
     (Inl (fmt_Errorf ''%s: %w'' [ArgS ''logs'', ArgW pools_ErrExists]), mem_root, [],
      mem_lake\<lparr>entries := [cfg_logs]\<rparr>)"
proof -
  have h1: "''logs'' \<noteq> ''HEAD''" by simp
  have h2: "pools_LookupByName mem_env (mem_lake\<lparr>entries := [cfg_logs]\<rparr>) (pools mem_root)
              ''logs'' = Some cfg_logs"
    by (simp add: mem_defs)
  show ?thesis
    using h1 h2 CreatePool_existing_name [OF h1 h2] by blast
qed

text \<open>
  The claim as stated fails for \<open>n = HEAD\<close>: \<open>RenamePool\<close> does not reject that name, so a
  pool can carry it, and creating a pool with it then fails on the name check, with an error
  that is not \<open>pools.ErrExists\<close>.
\<close>

theorem CreatePool_existing_HEAD_counterexample:
  "pools_LookupByName mem_env (mem_lake\<lparr>entries := [cfg_logs\<lparr>Name := ''HEAD''\<rparr>]\<rparr>)
       (pools mem_root) ''HEAD'' = Some (cfg_logs\<lparr>Name := ''HEAD''\<rparr>) \<and>
   Root_CreatePool mem_env 2 8 mem_root [] (mem_lake\<lparr>entries := [cfg_logs\<lparr>Name := ''HEAD''\<rparr>]\<rparr>)
       ''HEAD'' order_Nil 0 0 =
     (Inl (fmt_Errorf ''pool cannot be named %q'' [ArgQ ''HEAD'']), mem_root, [],
      mem_lake\<lparr>entries := [cfg_logs\<lparr>Name := ''HEAD''\<rparr>]\<rparr>) \<and>
   \<not> errors_Is (fmt_Errorf ''pool cannot be named %q'' [ArgQ ''HEAD'']) pools_ErrExists"
  by (simp add: Root_CreatePool_def mem_defs)

text \<open>
  C6 (as amended). \<open>CreatePool\<close> with a sort key of more than one key always fails and
  changes nothing. The two name checks come first: the error is that of the reserved name
  \<open>HEAD\<close>, else that of an existing pool name (\<open>pools.ErrExists\<close>), and otherwise
  \<open>multiple pool keys not supported\<close> (the spec's Invalid).
\<close>

theorem CreatePool_multiple_keys:
  assumes "length (Keys sortKey) > 1"
  shows "Root_CreatePool env now newID r h w name sortKey seekStride thresh =
     (Inl (if name = ''HEAD'' then fmt_Errorf ''pool cannot be named %q'' [ArgQ name]
           else if pools_LookupByName env w (pools r) name \<noteq> None
             then fmt_Errorf ''%s: %w'' [ArgS name, ArgW pools_ErrExists]
           else errors_New ''multiple pool keys not supported''),
      r, h, w)"
  using assms by (simp add: Root_CreatePool_def)

theorem CreatePool_multiple_keys_witness:
  "length (Keys \<lparr>Order = Asc, Keys = [[''a''], [''b'']]\<rparr>) > 1 \<and>
   Root_CreatePool mem_env 1 7 mem_root [] mem_lake ''logs''
       \<lparr>Order = Asc, Keys = [[''a''], [''b'']]\<rparr> 0 0 =
     (Inl (errors_New ''multiple pool keys not supported''), mem_root, [], mem_lake)"
proof -
  have h1: "length (Keys \<lparr>Order = Asc, Keys = [[''a''], [''b'']]\<rparr>) > 1" by simp
  show ?thesis
    using h1 CreatePool_multiple_keys [OF h1, of mem_env 1 7 mem_root "[]" mem_lake "''logs''" 0 0]
    by (simp add: mem_defs)
qed

text \<open>
  The claim as stated fails when the name is that of an existing pool: the error is then the
  Exists error, not an Invalid one.
\<close>

theorem CreatePool_multiple_keys_counterexample:
  "length (Keys \<lparr>Order = Asc, Keys = [[''a''], [''b'']]\<rparr>) > 1 \<and>
   Root_CreatePool mem_env 2 8 mem_root [] (mem_lake\<lparr>entries := [cfg_logs]\<rparr>) ''logs''
       \<lparr>Order = Asc, Keys = [[''a''], [''b'']]\<rparr> 0 0 =
     (Inl (fmt_Errorf ''%s: %w'' [ArgS ''logs'', ArgW pools_ErrExists]), mem_root, [],
      mem_lake\<lparr>entries := [cfg_logs]\<rparr>) \<and>
   errors_Is (fmt_Errorf ''%s: %w'' [ArgS ''logs'', ArgW pools_ErrExists]) pools_ErrExists"
  by (simp add: Root_CreatePool_def mem_defs)

text \<open>
  C9 (as amended). Once \<open>lake.CreatePool\<close> has made the pool's on-disk structure, a failure
  to open the pool or to add its config to the pools store makes \<open>CreatePool\<close> run
  \<open>lake.RemovePool\<close> on that config, whose own error is discarded, and return the error of
  the failed step. On the journal-backed pools store the store \<open>CreatePool\<close> returns has the
  pools journal it started with, and a lookup of the name in it finds nothing.
\<close>

theorem CreatePool_cleanup:
  assumes env: "env = journal_env appendEntry base"
    and name: "name \<noteq> ''HEAD''"
    and fresh: "pools_LookupByName env w (pools r) name = None"
    and keys: "length (Keys sortKey) \<le> 1"
    and cfg: "config = NewConfig env now newID name sortKey thresh seekStride"
    and created: "lake_CreatePool env w (path r) config = (None, w1)"
    and opened: "openPool env r h w1 config = (res, r1, h1)"
    and added: "pools_Add env w1 (pools r) config = (aerr, w2)"
    and failed: "res = Inl e \<or> (\<exists>a. res = Inr a) \<and> aerr = Some e"
    and wc: "wc = (case res of Inl x \<Rightarrow> w1 | Inr a \<Rightarrow> w2)"
  shows "Root_CreatePool env now newID r h w name sortKey seekStride thresh =
           (Inl e, r1, h1, snd (lake_RemovePool env wc (path r) config)) \<and>
         pools_journal (snd (snd (snd
           (Root_CreatePool env now newID r h w name sortKey seekStride thresh)))) =
           pools_journal w \<and>
         pools_LookupByName env (snd (snd (snd
           (Root_CreatePool env now newID r h w name sortKey seekStride thresh))))
           (pools r) name = None"
proof -
  have R: "Root_CreatePool env now newID r h w name sortKey seekStride thresh =
             (Inl e, r1, h1, snd (lake_RemovePool env wc (path r) config))"
    using name fresh keys cfg created opened added failed wc by (rule CreatePool_failure)
  have j1: "pools_journal w1 = pools_journal w"
    using created journal_on_objects [of w "lake_CreatePool base (objects w) (path r) config"]
    by (simp add: env journal_env_def)
  have j2: "pools_journal wc = pools_journal w1"
  proof (cases res)
    case (Inl x)
    then show ?thesis by (simp add: wc)
  next
    case (Inr a)
    with failed have "aerr = Some e" by simp
    with added have "store_Add appendEntry w1 config = (Some e, w2)"
      by (simp add: env journal_env_def)
    then have "pools_journal w2 = pools_journal w1"
      by (rule journal_failed_Add)
    with Inr show ?thesis by (simp add: wc)
  qed
  have j3: "pools_journal (snd (lake_RemovePool env wc (path r) config)) = pools_journal wc"
    using journal_on_objects [of wc "lake_RemovePool base (objects wc) (path r) config"]
    by (simp add: env journal_env_def)
  have f: "replay (pools_journal w) name = None"
    using fresh by (simp add: env journal_env_def)
  have l: "pools_LookupByName env (snd (lake_RemovePool env wc (path r) config)) (pools r) name =
             replay (pools_journal (snd (lake_RemovePool env wc (path r) config))) name"
    by (simp add: env journal_env_def)
  show ?thesis
    using j1 j2 j3 f l by (simp add: R)
qed

theorem CreatePool_cleanup_witness:
  "pools_LookupByName (journal_env mem_append mem_env)
      \<lparr>pools_journal = [], objects = mem_lake\<lparr>faults := [(CPoolsAdd ''logs'', Foreign 5)]\<rparr>\<rparr>
      (pools mem_root) ''logs'' = None \<and>
   lake_CreatePool (journal_env mem_append mem_env)
      \<lparr>pools_journal = [], objects = mem_lake\<lparr>faults := [(CPoolsAdd ''logs'', Foreign 5)]\<rparr>\<rparr>
      (path mem_root) cfg_logs =
     (None, \<lparr>pools_journal = [],
              objects = mem_lake\<lparr>faults := [(CPoolsAdd ''logs'', Foreign 5)], dirs := [7],
                                 calls := calls mem_lake @ [CCreatePool 7]\<rparr>\<rparr>) \<and>
   pools_Add (journal_env mem_append mem_env)
      \<lparr>pools_journal = [],
        objects = mem_lake\<lparr>faults := [(CPoolsAdd ''logs'', Foreign 5)], dirs := [7],
                           calls := calls mem_lake @ [CCreatePool 7]\<rparr>\<rparr>
      (pools mem_root) cfg_logs =
     (Some (Foreign 5),
      \<lparr>pools_journal = [],
        objects = mem_lake\<lparr>faults := [(CPoolsAdd ''logs'', Foreign 5)], dirs := [7],
                           calls := calls mem_lake @ [CCreatePool 7, CPoolsAdd ''logs'']\<rparr>\<rparr>) \<and>
   Root_CreatePool (journal_env mem_append mem_env) 1 7 mem_root []
      \<lparr>pools_journal = [], objects = mem_lake\<lparr>faults := [(CPoolsAdd ''logs'', Foreign 5)]\<rparr>\<rparr>
      ''logs'' order_Nil 0 0 =
     (Inl (Foreign 5), mem_root\<lparr>poolCache := [(7, 0)]\<rparr>,
      [\<lparr>Config = cfg_logs, internals = 4\<rparr>],
      \<lparr>pools_journal = [],
        objects = mem_lake\<lparr>faults := [(CPoolsAdd ''logs'', Foreign 5)],
                   calls := calls mem_lake @ [CCreatePool 7, CPoolsAdd ''logs'', CRemovePool 7]\<rparr>\<rparr>) \<and>
   pools_LookupByName (journal_env mem_append mem_env)
      (snd (snd (snd (Root_CreatePool (journal_env mem_append mem_env) 1 7 mem_root []
         \<lparr>pools_journal = [], objects = mem_lake\<lparr>faults := [(CPoolsAdd ''logs'', Foreign 5)]\<rparr>\<rparr>
         ''logs'' order_Nil 0 0))))
      (pools mem_root) ''logs'' = None \<and>
   lake_OpenPool (journal_env mem_append mem_env)
      \<lparr>pools_journal = [],
        objects = mem_lake\<lparr>faults := [(COpenPool 7, Foreign 6)], dirs := [7],
                           calls := calls mem_lake @ [CCreatePool 7]\<rparr>\<rparr>
      (path mem_root) cfg_logs = Inl (Foreign 6) \<and>
   Root_CreatePool (journal_env mem_append mem_env) 1 7 mem_root []
      \<lparr>pools_journal = [], objects = mem_lake\<lparr>faults := [(COpenPool 7, Foreign 6)]\<rparr>\<rparr>
      ''logs'' order_Nil 0 0 =
     (Inl (Foreign 6), mem_root, [],
      \<lparr>pools_journal = [],
        objects = mem_lake\<lparr>faults := [(COpenPool 7, Foreign 6)],
                   calls := calls mem_lake @ [CCreatePool 7, CRemovePool 7]\<rparr>\<rparr>) \<and>
   pools_LookupByName (journal_env mem_append mem_env)
      (snd (snd (snd (Root_CreatePool (journal_env mem_append mem_env) 1 7 mem_root []
         \<lparr>pools_journal = [], objects = mem_lake\<lparr>faults := [(COpenPool 7, Foreign 6)]\<rparr>\<rparr>
         ''logs'' order_Nil 0 0))))
      (pools mem_root) ''logs'' = None"
proof -
  let ?env = "journal_env mem_append mem_env"
  let ?w = "\<lparr>pools_journal = [], objects = mem_lake\<lparr>faults := [(CPoolsAdd ''logs'', Foreign 5)]\<rparr>\<rparr>"
  let ?w1 = "\<lparr>pools_journal = [],
              objects = mem_lake\<lparr>faults := [(CPoolsAdd ''logs'', Foreign 5)], dirs := [7],
                                 calls := calls mem_lake @ [CCreatePool 7]\<rparr>\<rparr>"
  let ?w2 = "\<lparr>pools_journal = [],
        objects = mem_lake\<lparr>faults := [(CPoolsAdd ''logs'', Foreign 5)], dirs := [7],
                           calls := calls mem_lake @ [CCreatePool 7, CPoolsAdd ''logs'']\<rparr>\<rparr>"
  let ?w3 = "\<lparr>pools_journal = [],
        objects = mem_lake\<lparr>faults := [(CPoolsAdd ''logs'', Foreign 5)],
                   calls := calls mem_lake @ [CCreatePool 7, CPoolsAdd ''logs'', CRemovePool 7]\<rparr>\<rparr>"
  let ?r1 = "mem_root\<lparr>poolCache := [(7, 0)]\<rparr>"
  let ?h1 = "[\<lparr>Config = cfg_logs, internals = 4::nat\<rparr>]"
  let ?v = "\<lparr>pools_journal = [], objects = mem_lake\<lparr>faults := [(COpenPool 7, Foreign 6)]\<rparr>\<rparr>"
  let ?v1 = "\<lparr>pools_journal = [],
        objects = mem_lake\<lparr>faults := [(COpenPool 7, Foreign 6)], dirs := [7],
                           calls := calls mem_lake @ [CCreatePool 7]\<rparr>\<rparr>"
  let ?v3 = "\<lparr>pools_journal = [],
        objects = mem_lake\<lparr>faults := [(COpenPool 7, Foreign 6)],
                   calls := calls mem_lake @ [CCreatePool 7, CRemovePool 7]\<rparr>\<rparr>"
  have env: "?env = journal_env mem_append mem_env" by simp
  have name: "''logs'' \<noteq> ''HEAD''" by simp
  have keys: "length (Keys order_Nil) \<le> 1" by (simp add: order_Nil_def)
  have cfg: "cfg_logs = NewConfig ?env 1 7 ''logs'' order_Nil 0 0"
    by (simp add: NewConfig_journal_logs)
  have fresh: "pools_LookupByName ?env ?w (pools mem_root) ''logs'' = None"
    by (simp add: journal_defs)
  have created: "lake_CreatePool ?env ?w (path mem_root) cfg_logs = (None, ?w1)"
    by (simp add: journal_defs mem_defs Let_def)
  have opened: "openPool ?env mem_root [] ?w1 cfg_logs = (Inr 0, ?r1, ?h1)"
    by (simp add: openPool_def journal_defs mem_defs)
  have added: "pools_Add ?env ?w1 (pools mem_root) cfg_logs = (Some (Foreign 5), ?w2)"
    by (simp add: journal_defs mem_defs Let_def)
  have failed: "Inr 0 = Inl (Foreign 5) \<or> (\<exists>a. (Inr 0 :: error + nat) = Inr a) \<and>
                  Some (Foreign 5) = Some (Foreign 5)"
    by simp
  have wc: "?w2 = (case (Inr 0 :: error + nat) of Inl x \<Rightarrow> ?w1 | Inr a \<Rightarrow> ?w2)"
    by simp
  have rm: "snd (lake_RemovePool ?env ?w2 (path mem_root) cfg_logs) = ?w3"
    by (simp add: journal_defs mem_defs Let_def)
  note A = CreatePool_cleanup [OF env name fresh keys cfg created opened added failed wc]
  have A1: "Root_CreatePool ?env 1 7 mem_root [] ?w ''logs'' order_Nil 0 0 =
             (Inl (Foreign 5), ?r1, ?h1, ?w3)"
    using A by (simp only: rm)
  have A2: "pools_LookupByName ?env
              (snd (snd (snd (Root_CreatePool ?env 1 7 mem_root [] ?w ''logs'' order_Nil 0 0))))
              (pools mem_root) ''logs'' = None"
    using A by blast
  have fresh': "pools_LookupByName ?env ?v (pools mem_root) ''logs'' = None"
    by (simp add: journal_defs)
  have created': "lake_CreatePool ?env ?v (path mem_root) cfg_logs = (None, ?v1)"
    by (simp add: journal_defs mem_defs Let_def)
  have nopen: "lake_OpenPool ?env ?v1 (path mem_root) cfg_logs = Inl (Foreign 6)"
    by (simp add: journal_defs mem_defs)
  have opened': "openPool ?env mem_root [] ?v1 cfg_logs = (Inl (Foreign 6), mem_root, [])"
    by (simp add: openPool_def nopen) (simp add: journal_defs mem_defs)
  have failed': "(Inl (Foreign 6) :: error + nat) = Inl (Foreign 6) \<or>
                 (\<exists>a. (Inl (Foreign 6) :: error + nat) = Inr a) \<and>
                  fst (pools_Add ?env ?v1 (pools mem_root) cfg_logs) = Some (Foreign 6)"
    by simp
  have wc': "?v1 = (case (Inl (Foreign 6) :: error + nat) of Inl x \<Rightarrow> ?v1
                     | Inr a \<Rightarrow> snd (pools_Add ?env ?v1 (pools mem_root) cfg_logs))"
    by simp
  have rm': "snd (lake_RemovePool ?env ?v1 (path mem_root) cfg_logs) = ?v3"
    by (simp add: journal_defs mem_defs Let_def)
  note B = CreatePool_cleanup [OF env name fresh' keys cfg created' opened'
      prod.collapse [symmetric] failed' wc']
  have B1: "Root_CreatePool ?env 1 7 mem_root [] ?v ''logs'' order_Nil 0 0 =
             (Inl (Foreign 6), mem_root, [], ?v3)"
    using B by (simp only: rm')
  have B2: "pools_LookupByName ?env
              (snd (snd (snd (Root_CreatePool ?env 1 7 mem_root [] ?v ''logs'' order_Nil 0 0))))
              (pools mem_root) ''logs'' = None"
    using B by blast
  show ?thesis
    using fresh created added A1 A2 nopen B1 B2 by blast
qed

text \<open>
  The claim as stated fails: the removal is best effort. When adding the config fails and
  \<open>lake.RemovePool\<close> fails too, \<open>CreatePool\<close> returns the error of the failed step and
  the pool's storage is still there: the pool can still be opened on it.
\<close>

theorem CreatePool_cleanup_counterexample:
  "Root_CreatePool mem_env 1 7 mem_root []
     (mem_lake\<lparr>faults := [(CPoolsAdd ''logs'', Foreign 5), (CRemovePool 7, Foreign 6)]\<rparr>)
     ''logs'' order_Nil 0 0 =
   (Inl (Foreign 5), mem_root\<lparr>poolCache := [(7, 0)]\<rparr>,
    [\<lparr>Config = cfg_logs, internals = 4\<rparr>],
    mem_lake\<lparr>faults := [(CPoolsAdd ''logs'', Foreign 5), (CRemovePool 7, Foreign 6)],
             dirs := [7],
             calls := calls mem_lake @ [CCreatePool 7, CPoolsAdd ''logs'', CRemovePool 7]\<rparr>) \<and>
   lake_RemovePool mem_env
     (mem_lake\<lparr>faults := [(CPoolsAdd ''logs'', Foreign 5), (CRemovePool 7, Foreign 6)],
             dirs := [7],
             calls := calls mem_lake @ [CCreatePool 7, CPoolsAdd ''logs'']\<rparr>)
     (path mem_root) cfg_logs =
   (Some (Foreign 6),
    mem_lake\<lparr>faults := [(CPoolsAdd ''logs'', Foreign 5), (CRemovePool 7, Foreign 6)],
             dirs := [7],
             calls := calls mem_lake @ [CCreatePool 7, CPoolsAdd ''logs'', CRemovePool 7]\<rparr>) \<and>
   lake_OpenPool mem_env
     (mem_lake\<lparr>faults := [(CPoolsAdd ''logs'', Foreign 5), (CRemovePool 7, Foreign 6)],
             dirs := [7],
             calls := calls mem_lake @ [CCreatePool 7, CPoolsAdd ''logs'', CRemovePool 7]\<rparr>)
     (path mem_root) cfg_logs =
   Inr \<lparr>Config = cfg_logs, internals = 6\<rparr>"
  by (simp add: Root_CreatePool_def openPool_def NewConfig_def IsNil_def order_Nil_def
      order_NewSortKey_def DottedList_ts mem_defs Let_def)

text \<open>
  C10. \<open>NewConfig\<close> replaces a nil sort key by the single key \<open>ts\<close> in descending order, a
  zero threshold by \<open>data.DefaultThreshold\<close> and a zero seek stride by
  \<open>data.DefaultSeekStride\<close>. So \<open>CreatePool\<close> with a nil sort key and an unused name, when
  its collaborators succeed, succeeds: the config it records has the sort key \<open>ts\<close>
  descending, and so has the pool it returns when \<open>lake.OpenPool\<close> gives pools the config
  they are opened with.
\<close>

theorem NewConfig_defaults:
  assumes nil: "IsNil sortKey"
    and name: "name \<noteq> ''HEAD''"
    and fresh: "pools_LookupByName env w (pools r) name = None"
    and cfg: "config = NewConfig env now newID name sortKey thresh seekStride"
    and created: "lake_CreatePool env w (path r) config = (None, w1)"
    and opened: "openPool env r h w1 config = (Inr a, r1, h1)"
    and added: "pools_Add env w1 (pools r) config = (None, w2)"
    and carries: "\<forall>p. lake_OpenPool env w1 (path r) config = Inr p \<longrightarrow> Config p = config"
  shows "NewConfig env ts i n sk th ss =
           \<lparr>Ts = ts, Name = n, ID = i,
             SortKey = (if IsNil sk then \<lparr>Order = Desc, Keys = [[''ts'']]\<rparr> else sk),
             SeekStride = (if ss = 0 then data_DefaultSeekStride env else ss),
             Threshold = (if th = 0 then data_DefaultThreshold env else th)\<rparr> \<and>
         Root_CreatePool env now newID r h w name sortKey seekStride thresh = (Inr a, r1, h1, w2) \<and>
         SortKey config = \<lparr>Order = Desc, Keys = [[''ts'']]\<rparr> \<and>
         SortKey (Config (h1 ! a)) = \<lparr>Order = Desc, Keys = [[''ts'']]\<rparr>"
proof -
  have n: "NewConfig env ts i n sk th ss =
           \<lparr>Ts = ts, Name = n, ID = i,
             SortKey = (if IsNil sk then \<lparr>Order = Desc, Keys = [[''ts'']]\<rparr> else sk),
             SeekStride = (if ss = 0 then data_DefaultSeekStride env else ss),
             Threshold = (if th = 0 then data_DefaultThreshold env else th)\<rparr>"
    by (simp add: NewConfig_def order_NewSortKey_def DottedList_ts)
  have c: "NewConfig env now newID name sortKey
             (if thresh = 0 then data_DefaultThreshold env else thresh) seekStride = config"
    by (simp add: cfg NewConfig_thresh)
  have k: "\<not> length (Keys sortKey) > 1"
    using nil by (simp add: IsNil_def)
  have r: "Root_CreatePool env now newID r h w name sortKey seekStride thresh = (Inr a, r1, h1, w2)"
    using name fresh k created opened added by (simp add: Root_CreatePool_def c Let_def)
  have s: "SortKey config = \<lparr>Order = Desc, Keys = [[''ts'']]\<rparr>"
    using nil by (simp add: cfg NewConfig_def order_NewSortKey_def DottedList_ts)
  have "Config (h1 ! a) = config"
    using opened carries by (rule openPool_pool)
  then show ?thesis
    using n r s by simp
qed

theorem NewConfig_defaults_witness:
  "IsNil order_Nil \<and>
   pools_LookupByName mem_env mem_lake (pools mem_root) ''logs'' = None \<and>
   NewConfig mem_env 1 7 ''logs'' order_Nil 0 0 = cfg_logs \<and>
   SortKey cfg_logs = \<lparr>Order = Desc, Keys = [[''ts'']]\<rparr> \<and>
   Root_CreatePool mem_env 1 7 mem_root [] mem_lake ''logs'' order_Nil 0 0 =
     (Inr 0, mem_root\<lparr>poolCache := [(7, 0)]\<rparr>, [\<lparr>Config = cfg_logs, internals = 4\<rparr>],
      mem_lake\<lparr>entries := [cfg_logs], dirs := [7],
               calls := calls mem_lake @ [CCreatePool 7, CPoolsAdd ''logs'']\<rparr>)"
proof -
  let ?w1 = "mem_lake\<lparr>dirs := [7], calls := calls mem_lake @ [CCreatePool 7]\<rparr>"
  let ?w2 = "mem_lake\<lparr>entries := [cfg_logs], dirs := [7],
               calls := calls mem_lake @ [CCreatePool 7, CPoolsAdd ''logs'']\<rparr>"
  let ?r1 = "mem_root\<lparr>poolCache := [(7, 0)]\<rparr>"
  let ?h1 = "[\<lparr>Config = cfg_logs, internals = 4::nat\<rparr>]"
  have nil: "IsNil order_Nil" by (simp add: IsNil_def order_Nil_def)
  have name: "''logs'' \<noteq> ''HEAD''" by simp
  have cfg: "cfg_logs = NewConfig mem_env 1 7 ''logs'' order_Nil 0 0"
    by (simp add: NewConfig_logs)
  have fresh: "pools_LookupByName mem_env mem_lake (pools mem_root) ''logs'' = None"
    by (simp add: mem_defs)
  have created: "lake_CreatePool mem_env mem_lake (path mem_root) cfg_logs = (None, ?w1)"
    by (simp add: mem_defs Let_def)
  have opened: "openPool mem_env mem_root [] ?w1 cfg_logs = (Inr 0, ?r1, ?h1)"
    by (simp add: openPool_def mem_defs)
  have added: "pools_Add mem_env ?w1 (pools mem_root) cfg_logs = (None, ?w2)"
    by (simp add: mem_defs Let_def)
  have carries: "\<forall>p. lake_OpenPool mem_env ?w1 (path mem_root) cfg_logs = Inr p \<longrightarrow>
                   Config p = cfg_logs"
    by (simp add: mem_defs)
  note T = NewConfig_defaults [OF nil name fresh cfg created opened added carries,
      of 1 7 "''logs''" order_Nil 0 0]
  have R: "Root_CreatePool mem_env 1 7 mem_root [] mem_lake ''logs'' order_Nil 0 0 =
             (Inr 0, ?r1, ?h1, ?w2)"
    using T by blast
  have S: "SortKey cfg_logs = \<lparr>Order = Desc, Keys = [[''ts'']]\<rparr>"
    using T by blast
  show ?thesis
    using nil fresh NewConfig_logs R S by simp
qed

section \<open>Opening a pool\<close>

text \<open>
  C8. When the pool cache holds a pool for the id of the config the pools store records,
  opening the pool allocates a new pool, at an address other than the cached one: a copy of
  the cached pool whose \<open>Config\<close> is the config from the store and whose other fields are
  those of the cached pool. The cached pool itself is left as it was.
\<close>

theorem OpenPool_cached_copy:
  assumes cfg: "pools_LookupByID env w (pools r) id' = Inr config"
    and hit: "lru_Get env (poolCache r) (ID config) = (Some a, c')"
    and valid: "a < length h"
  shows "Root_OpenPool env r h w id' =
           (Inr (length h), r\<lparr>poolCache := c'\<rparr>, h @ [(h ! a)\<lparr>Config := config\<rparr>]) \<and>
         openPool env r h w config =
           (Inr (length h), r\<lparr>poolCache := c'\<rparr>, h @ [(h ! a)\<lparr>Config := config\<rparr>]) \<and>
         length h \<noteq> a \<and>
         (h @ [(h ! a)\<lparr>Config := config\<rparr>]) ! a = h ! a \<and>
         Config ((h @ [(h ! a)\<lparr>Config := config\<rparr>]) ! length h) = config \<and>
         internals ((h @ [(h ! a)\<lparr>Config := config\<rparr>]) ! length h) = internals (h ! a)"
proof -
  have o: "openPool env r h w config =
             (Inr (length h), r\<lparr>poolCache := c'\<rparr>, h @ [(h ! a)\<lparr>Config := config\<rparr>])"
    using hit valid by (simp add: openPool_def)
  then have "Root_OpenPool env r h w id' =
               (Inr (length h), r\<lparr>poolCache := c'\<rparr>, h @ [(h ! a)\<lparr>Config := config\<rparr>])"
    using cfg by (simp add: Root_OpenPool_def)
  moreover have "length h \<noteq> a"
    using valid by simp
  moreover have "(h @ [(h ! a)\<lparr>Config := config\<rparr>]) ! a = h ! a"
    using valid by (simp add: nth_append)
  ultimately show ?thesis
    using o by simp
qed

theorem OpenPool_cached_copy_witness:
  "pools_LookupByID mem_env (mem_lake\<lparr>entries := [cfg_logs]\<rparr>) (pools mem_root) 7 =
     Inr cfg_logs \<and>
   lru_Get mem_env (poolCache (mem_root\<lparr>poolCache := [(7, 0)]\<rparr>)) (ID cfg_logs) =
     (Some 0, [(7, 0)]) \<and>
   0 < length [\<lparr>Config = cfg_logs\<lparr>Name := ''old''\<rparr>, internals = 4::nat\<rparr>] \<and>
   Root_OpenPool mem_env (mem_root\<lparr>poolCache := [(7, 0)]\<rparr>)
       [\<lparr>Config = cfg_logs\<lparr>Name := ''old''\<rparr>, internals = 4\<rparr>]
       (mem_lake\<lparr>entries := [cfg_logs]\<rparr>) 7 =
     (Inr 1, mem_root\<lparr>poolCache := [(7, 0)]\<rparr>,
      [\<lparr>Config = cfg_logs\<lparr>Name := ''old''\<rparr>, internals = 4\<rparr>,
       \<lparr>Config = cfg_logs, internals = 4\<rparr>])"
proof -
  let ?w = "mem_lake\<lparr>entries := [cfg_logs]\<rparr>"
  let ?r = "mem_root\<lparr>poolCache := [(7, 0)]\<rparr>"
  let ?h = "[\<lparr>Config = cfg_logs\<lparr>Name := ''old''\<rparr>, internals = (4::nat)\<rparr>]"
  have h1: "pools_LookupByID mem_env ?w (pools ?r) 7 = Inr cfg_logs"
    by (simp add: mem_defs)
  have h2: "lru_Get mem_env (poolCache ?r) (ID cfg_logs) = (Some 0, [(7, 0)])"
    by (simp add: mem_defs)
  have h3: "0 < length ?h" by simp
  show ?thesis
    using h1 h2 h3 OpenPool_cached_copy [OF h1 h2 h3] by simp
qed

end
